theory Spec2Isabelle
  imports Main "HOL-Library.AList"
begin

section \<open>Data of the Binance data streamer\<close>

text \<open>
  The actor of \<^verbatim>\<open>src/src/binance_streamer.py\<close> receives market data from its host
  framework through typed callbacks, counts what it receives and writes every object to a
  Parquet catalog. The identifiers, the data objects, the catalog and the subscription
  calls belong to the framework; the model keeps of them what the actor reads.
\<close>

datatype InstrumentId = InstrumentId string

datatype BarType = BarType string

text \<open>\<^verbatim>\<open>str(bar.bar_type)\<close>: the canonical string of a bar type.\<close>

fun str_bar_type :: "BarType \<Rightarrow> string" where
  "str_bar_type (BarType s) = s"

datatype BookType = L1_MBP | L2_MBP | L3_MBO

datatype CatalogWriteMode = APPEND | PREPEND | OVERWRITE | NEWFILE

datatype LogColor = NORMAL | GREEN | BLUE | MAGENTA | CYAN | YELLOW | RED

datatype LogLevel = INFO | ERROR

text \<open>The data objects, with the attributes the callbacks read. Prices, sizes and volumes
  are kept as the text the log lines print.\<close>

datatype Instrument = Instrument (id_of: InstrumentId)

datatype QuoteTick =
  QuoteTick (quote_instrument_id: InstrumentId) (bid_price: string) (ask_price: string)

datatype TradeTick =
  TradeTick (trade_instrument_id: InstrumentId) (trade_price: string) (trade_size: string)

datatype OrderBookDeltas = OrderBookDeltas (deltas_instrument_id: InstrumentId)

datatype Bar =
  Bar (bar_type: BarType) (bar_open: string) (bar_high: string) (bar_low: string)
      (bar_close: string) (bar_volume: string)

text \<open>What the host delivers and what a catalog write holds: an object of one of the
  five classes.\<close>

datatype data =
    DInstrument Instrument
  | DQuoteTick QuoteTick
  | DTradeTick TradeTick
  | DOrderBookDeltas OrderBookDeltas
  | DBar Bar

text \<open>An entry of \<^verbatim>\<open>list_data_types()\<close>: a class (it has \<^verbatim>\<open>__name__\<close>) or any
  other object (printed with \<^verbatim>\<open>str\<close>).\<close>

datatype data_type = Named string | Unnamed string

fun type_name :: "data_type \<Rightarrow> string" where
  "type_name (Named n) = n"
| "type_name (Unnamed s) = s"

text \<open>The log lines of the source, one constructor for each format string, carrying the
  values the string interpolates.\<close>

datatype message =
    BarTypeParseError string string
  | InstrumentIdParseError string string
  | Starting string
  | SubscribedQuoteTicks InstrumentId
  | SubscribedTradeTicks InstrumentId
  | SubscribedOrderBook InstrumentId
  | SubscribedBars BarType
  | InstrumentReceived InstrumentId
  | QuoteTickReceived int InstrumentId string string
  | TradeTickReceived int InstrumentId string string
  | OrderBookReceived int InstrumentId
  | BarReceived int string string string string string string
  | StatusReport string
  | QuoteTotal int
  | TradeTotal int
  | BarTotal string int
  | CatalogDataTypes "data_type list"
  | DataTypeWritten string
  | CatalogStatsError string
  | Stopping
  | CatalogFlushed string
  | Stopped

text \<open>The subscription calls the actor makes on its base class.\<close>

datatype actor_call =
    subscribe_instrument InstrumentId
  | subscribe_quote_ticks InstrumentId
  | subscribe_trade_ticks InstrumentId
  | subscribe_order_book_deltas InstrumentId BookType int
  | subscribe_bars BarType
  | unsubscribe_quote_ticks InstrumentId
  | unsubscribe_trade_ticks InstrumentId
  | unsubscribe_order_book_deltas InstrumentId BookType
  | unsubscribe_bars BarType

text \<open>Everything the actor does to the outside, in the order it does it: a subscription
  call, a catalog write (the records and the \<^verbatim>\<open>mode\<close> argument, \<open>None\<close> when the
  call passes none), the catalog's inventory query, a log line.\<close>

datatype effect =
    Actor actor_call
  | WriteData "data list" "CatalogWriteMode option"
  | ListDataTypes
  | Log LogLevel LogColor message

datatype error = Exception string

text \<open>
  The collaborators, as parameters. \<open>'w\<close> is the state of the outside world (the feed
  and the catalog on disk). A call answers \<open>Some e\<close> when it raises \<open>e\<close> and \<open>None\<close>
  when it returns, and leaves the world it leaves. The two parsers are
  \<^verbatim>\<open>BarType.from_str\<close> and \<^verbatim>\<open>InstrumentId.from_str\<close>.
\<close>

record 'w env =
  bar_type_from_str :: "string \<Rightarrow> string + BarType"
  instrument_id_from_str :: "string \<Rightarrow> string + InstrumentId"
  actor :: "'w \<Rightarrow> actor_call \<Rightarrow> string option \<times> 'w"
  write_data :: "'w \<Rightarrow> data list \<Rightarrow> CatalogWriteMode option \<Rightarrow> string option \<times> 'w"
  list_data_types :: "'w \<Rightarrow> string + data_type list"

record BinanceDataStreamerConfig =
  cfg_instrument_ids :: "string list"
  cfg_bar_types :: "string list"
  cfg_catalog_path :: string

text \<open>The actor's fields, then the world and the trace of effects so far.
  \<open>bar_counts\<close> is a Python dict: an association list in insertion order.\<close>

record 'w streamer =
  config :: BinanceDataStreamerConfig
  quote_count :: int
  trade_count :: int
  deltas_count :: int
  book_count :: int
  book_type :: BookType
  book :: "data list"
  bar_counts :: "(string \<times> int) list"
  bar_types :: "BarType list"
  instrument_ids :: "InstrumentId list"
  world :: 'w
  trace :: "effect list"

section \<open>Statements\<close>

type_synonym 'w stmt = "'w streamer \<Rightarrow> (error + unit) \<times> 'w streamer"

text \<open>A block of statements: the first one that raises ends the block, with the state
  as it was left.\<close>

fun run_stmts :: "'w stmt list \<Rightarrow> 'w stmt" where
  "run_stmts [] s = (Inr (), s)"
| "run_stmts (f # fs) s =
     (case f s of
        (Inl e, s') \<Rightarrow> (Inl e, s')
      | (Inr u, s') \<Rightarrow> run_stmts fs s')"

text \<open>A statement that cannot raise.\<close>

definition stmt :: "('w streamer \<Rightarrow> 'w streamer) \<Rightarrow> 'w stmt" where
  "stmt f s = (Inr (), f s)"

definition log_to :: "LogLevel \<Rightarrow> LogColor \<Rightarrow> message \<Rightarrow> 'w streamer \<Rightarrow> 'w streamer" where
  "log_to lvl color m s = s\<lparr>trace := trace s @ [Log lvl color m]\<rparr>"

definition log_info :: "message \<Rightarrow> 'w streamer \<Rightarrow> 'w streamer" where
  "log_info m s = log_to INFO NORMAL m s"

definition log_error :: "message \<Rightarrow> 'w streamer \<Rightarrow> 'w streamer" where
  "log_error m s = log_to ERROR NORMAL m s"

definition call_actor :: "'w env \<Rightarrow> actor_call \<Rightarrow> 'w stmt" where
  "call_actor env c s =
     (case actor env (world s) c of
        (r, w') \<Rightarrow>
          ((case r of Some e \<Rightarrow> Inl (Exception e) | None \<Rightarrow> Inr ()),
           s\<lparr>world := w', trace := trace s @ [Actor c]\<rparr>))"

definition call_write_data ::
    "'w env \<Rightarrow> data list \<Rightarrow> CatalogWriteMode option \<Rightarrow> 'w stmt" where
  "call_write_data env records mode s =
     (case write_data env (world s) records mode of
        (r, w') \<Rightarrow>
          ((case r of Some e \<Rightarrow> Inl (Exception e) | None \<Rightarrow> Inr ()),
           s\<lparr>world := w', trace := trace s @ [WriteData records mode]\<rparr>))"

text \<open>\<^verbatim>\<open>d.get(k, default)\<close> and \<^verbatim>\<open>d[k] = v\<close> on a dict.\<close>

definition dict_get :: "('k \<times> 'v) list \<Rightarrow> 'k \<Rightarrow> 'v \<Rightarrow> 'v" where
  "dict_get d k dflt = (case map_of d k of None \<Rightarrow> dflt | Some v \<Rightarrow> v)"

definition dict_set :: "'k \<Rightarrow> 'v \<Rightarrow> ('k \<times> 'v) list \<Rightarrow> ('k \<times> 'v) list" where
  "dict_set k v d = AList.update k v d"

section \<open>Construction: parsing the configured identifiers\<close>

text \<open>The two loops of \<^verbatim>\<open>__init__\<close>. An entry that fails to parse is logged and
  skipped; a bar type that parses also gets its counter, under the configured string.\<close>

fun parse_bar_types :: "'w env \<Rightarrow> string list \<Rightarrow> 'w streamer \<Rightarrow> 'w streamer" where
  "parse_bar_types env [] s = s"
| "parse_bar_types env (bar_type_str # rest) s =
     parse_bar_types env rest
       (case bar_type_from_str env bar_type_str of
          Inr bt \<Rightarrow>
            s\<lparr>bar_types := bar_types s @ [bt],
              bar_counts := dict_set bar_type_str 0 (bar_counts s)\<rparr>
        | Inl e \<Rightarrow> log_error (BarTypeParseError bar_type_str e) s)"

fun parse_instrument_ids :: "'w env \<Rightarrow> string list \<Rightarrow> 'w streamer \<Rightarrow> 'w streamer" where
  "parse_instrument_ids env [] s = s"
| "parse_instrument_ids env (instrument_id_str # rest) s =
     parse_instrument_ids env rest
       (case instrument_id_from_str env instrument_id_str of
          Inr i \<Rightarrow> s\<lparr>instrument_ids := instrument_ids s @ [i]\<rparr>
        | Inl e \<Rightarrow> log_error (InstrumentIdParseError instrument_id_str e) s)"

text \<open>\<^verbatim>\<open>__init__\<close>, on the world \<open>w\<close> in which the catalog directory has been
  opened.\<close>

definition init :: "'w env \<Rightarrow> BinanceDataStreamerConfig \<Rightarrow> 'w \<Rightarrow> 'w streamer" where
  "init env cfg w =
     parse_instrument_ids env (cfg_instrument_ids cfg)
       (parse_bar_types env (cfg_bar_types cfg)
          \<lparr>config = cfg, quote_count = 0, trade_count = 0, deltas_count = 0,
           book_count = 0, book_type = L2_MBP, book = [], bar_counts = [],
           bar_types = [], instrument_ids = [], world = w, trace = []\<rparr>)"

section \<open>Start and stop\<close>

text \<open>\<^verbatim>\<open>on_start\<close>: the body of the loop over \<open>instrument_ids\<close>, the body of the loop
  over \<open>bar_types\<close>, and the two loops after the opening log line. No subscribe call
  stands in a \<^verbatim>\<open>try\<close>.\<close>

definition subscribe_all :: "'w env \<Rightarrow> BookType \<Rightarrow> InstrumentId \<Rightarrow> 'w stmt list" where
  "subscribe_all env bt instrument_id =
     [call_actor env (subscribe_instrument instrument_id),
      call_actor env (subscribe_quote_ticks instrument_id),
      stmt (log_info (SubscribedQuoteTicks instrument_id)),
      call_actor env (subscribe_trade_ticks instrument_id),
      stmt (log_info (SubscribedTradeTicks instrument_id)),
      call_actor env (subscribe_order_book_deltas instrument_id bt 0),
      stmt (log_info (SubscribedOrderBook instrument_id))]"

definition subscribe_bar :: "'w env \<Rightarrow> BarType \<Rightarrow> 'w stmt list" where
  "subscribe_bar env b =
     [call_actor env (subscribe_bars b), stmt (log_info (SubscribedBars b))]"

definition on_start :: "'w env \<Rightarrow> 'w stmt" where
  "on_start env s =
     run_stmts
       (stmt (log_info (Starting (cfg_catalog_path (config s))))
        # concat (map (subscribe_all env (book_type s)) (instrument_ids s))
        @ concat (map (subscribe_bar env) (bar_types s))) s"

text \<open>\<^verbatim>\<open>on_stop\<close>: the two loops of unsubscribe calls, none in a \<^verbatim>\<open>try\<close>. The
  call for order book deltas passes \<open>book_type\<close> as its second positional argument
  (\<^verbatim>\<open>on_start\<close> passes it by keyword); the call is kept as written. There is no call
  that cancels the instrument subscription of \<^verbatim>\<open>on_start\<close>. The \<^verbatim>\<open>try\<close> at the
  end holds one log line only (the flush is commented out), so its \<^verbatim>\<open>except\<close>
  branch is never taken.\<close>

definition unsubscribe_all :: "'w env \<Rightarrow> BookType \<Rightarrow> InstrumentId \<Rightarrow> 'w stmt list" where
  "unsubscribe_all env bt instrument_id =
     [call_actor env (unsubscribe_quote_ticks instrument_id),
      call_actor env (unsubscribe_trade_ticks instrument_id),
      call_actor env (unsubscribe_order_book_deltas instrument_id bt)]"

definition on_stop :: "'w env \<Rightarrow> 'w stmt" where
  "on_stop env s =
     run_stmts
       (stmt (log_info Stopping)
        # concat (map (unsubscribe_all env (book_type s)) (instrument_ids s))
        @ map (\<lambda>b. call_actor env (unsubscribe_bars b)) (bar_types s)
        @ [stmt (log_info (CatalogFlushed (cfg_catalog_path (config s)))),
           stmt (log_info Stopped)]) s"

section \<open>The data callbacks\<close>

definition on_instrument :: "'w env \<Rightarrow> Instrument \<Rightarrow> 'w stmt" where
  "on_instrument env instrument =
     run_stmts
       [stmt (log_info (InstrumentReceived (id_of instrument))),
        call_write_data env [DInstrument instrument] None]"

definition on_quote_tick :: "'w env \<Rightarrow> QuoteTick \<Rightarrow> 'w stmt" where
  "on_quote_tick env tick =
     run_stmts
       [stmt (\<lambda>s. s\<lparr>quote_count := quote_count s + 1\<rparr>),
        stmt (\<lambda>s. if quote_count s mod 100 = 0
                   then log_info (QuoteTickReceived (quote_count s)
                          (quote_instrument_id tick) (bid_price tick) (ask_price tick)) s
                   else s),
        call_write_data env [DQuoteTick tick] (Some APPEND)]"

definition on_trade_tick :: "'w env \<Rightarrow> TradeTick \<Rightarrow> 'w stmt" where
  "on_trade_tick env tick =
     run_stmts
       [stmt (\<lambda>s. s\<lparr>trade_count := trade_count s + 1\<rparr>),
        stmt (\<lambda>s. if trade_count s mod 10 = 0
                   then log_info (TradeTickReceived (trade_count s)
                          (trade_instrument_id tick) (trade_price tick) (trade_size tick)) s
                   else s),
        call_write_data env [DTradeTick tick] (Some APPEND)]"

definition on_order_book_deltas :: "'w env \<Rightarrow> OrderBookDeltas \<Rightarrow> 'w stmt" where
  "on_order_book_deltas env deltas =
     run_stmts
       [stmt (\<lambda>s. s\<lparr>deltas_count := deltas_count s + 1\<rparr>),
        stmt (\<lambda>s. if deltas_count s mod 100 = 0
                   then log_info (OrderBookReceived (deltas_count s)
                          (deltas_instrument_id deltas)) s
                   else s),
        call_write_data env [DOrderBookDeltas deltas] (Some APPEND)]"

text \<open>\<^verbatim>\<open>self.bar_counts[bar_type_str]\<close> in the log line is a dict lookup: it raises
  \<^verbatim>\<open>KeyError\<close> on a key the dict does not have.\<close>

definition on_bar :: "'w env \<Rightarrow> Bar \<Rightarrow> 'w stmt" where
  "on_bar env bar =
     (let bar_type_str = str_bar_type (bar_type bar) in
      run_stmts
        [stmt (\<lambda>s. s\<lparr>bar_counts :=
                 dict_set bar_type_str (dict_get (bar_counts s) bar_type_str 0 + 1)
                   (bar_counts s)\<rparr>),
         (\<lambda>s. case map_of (bar_counts s) bar_type_str of
                 None \<Rightarrow> (Inl (Exception ''KeyError''), s)
               | Some n \<Rightarrow>
                   (Inr (),
                    log_info (BarReceived n bar_type_str (bar_open bar) (bar_high bar)
                      (bar_low bar) (bar_close bar) (bar_volume bar)) s)),
         call_write_data env [DBar bar] (Some APPEND)])"

text \<open>The callback that the host calls for an object of each class. This is the
  streamer's part of the dispatch alone: what the host itself does around the call (it
  calls only while the actor is running, and it logs an exception that leaves the callback
  and raises it again) is the framework's and is not modelled.\<close>

fun handle_data :: "'w env \<Rightarrow> data \<Rightarrow> 'w stmt" where
  "handle_data env (DInstrument i) = on_instrument env i"
| "handle_data env (DQuoteTick t) = on_quote_tick env t"
| "handle_data env (DTradeTick t) = on_trade_tick env t"
| "handle_data env (DOrderBookDeltas d) = on_order_book_deltas env d"
| "handle_data env (DBar b) = on_bar env b"

text \<open>The objects that reach the callbacks, one at a time. An exception that leaves a
  callback goes to the host; the next object is handled on the state the callback left.\<close>

fun deliver :: "'w env \<Rightarrow> data list \<Rightarrow> 'w streamer \<Rightarrow> 'w streamer" where
  "deliver env [] s = s"
| "deliver env (d # ds) s = deliver env ds (snd (handle_data env d s))"

section \<open>The status report\<close>

text \<open>\<^verbatim>\<open>_log_status\<close>; \<open>now\<close> is the text of \<^verbatim>\<open>datetime.now()\<close> as the header
  prints it. The inventory query is the one call inside the \<^verbatim>\<open>try\<close> that can
  raise.\<close>

definition log_status :: "'w env \<Rightarrow> string \<Rightarrow> 'w stmt" where
  "log_status env now =
     run_stmts
       [stmt (log_to INFO YELLOW (StatusReport now)),
        stmt (\<lambda>s. log_to INFO YELLOW (QuoteTotal (quote_count s)) s),
        stmt (\<lambda>s. log_to INFO YELLOW (TradeTotal (trade_count s)) s),
        stmt (\<lambda>s. foldl (\<lambda>s' (bar_type_str, count).
                            log_to INFO YELLOW (BarTotal bar_type_str count) s')
                     s (bar_counts s)),
        stmt (\<lambda>s. case list_data_types env (world s) of
                     Inr data_types \<Rightarrow>
                       foldl (\<lambda>s' data_type.
                                log_to INFO MAGENTA (DataTypeWritten (type_name data_type)) s')
                         (log_to INFO MAGENTA (CatalogDataTypes data_types)
                            (s\<lparr>trace := trace s @ [ListDataTypes]\<rparr>))
                         data_types
                   | Inl e \<Rightarrow>
                       log_error (CatalogStatsError e)
                         (s\<lparr>trace := trace s @ [ListDataTypes]\<rparr>))]"

section \<open>Observations\<close>

text \<open>What a trace holds: the catalog writes, the subscription calls, the log lines of a
  level, and the counts printed by the sampled quote and trade lines.\<close>

fun writes :: "effect list \<Rightarrow> (data list \<times> CatalogWriteMode option) list" where
  "writes [] = []"
| "writes (WriteData r m # es) = (r, m) # writes es"
| "writes (e # es) = writes es"

fun actor_calls :: "effect list \<Rightarrow> actor_call list" where
  "actor_calls [] = []"
| "actor_calls (Actor c # es) = c # actor_calls es"
| "actor_calls (e # es) = actor_calls es"

fun logged :: "LogLevel \<Rightarrow> effect list \<Rightarrow> message list" where
  "logged lvl [] = []"
| "logged lvl (Log l c m # es) = (if l = lvl then m # logged lvl es else logged lvl es)"
| "logged lvl (e # es) = logged lvl es"





fun is_quote :: "data \<Rightarrow> bool" where
  "is_quote (DQuoteTick t) = True"
| "is_quote d = False"

fun is_trade :: "data \<Rightarrow> bool" where
  "is_trade (DTradeTick t) = True"
| "is_trade d = False"

fun is_deltas :: "data \<Rightarrow> bool" where
  "is_deltas (DOrderBookDeltas x) = True"
| "is_deltas d = False"

fun is_bar_of :: "string \<Rightarrow> data \<Rightarrow> bool" where
  "is_bar_of k (DBar b) = (str_bar_type (bar_type b) = k)"
| "is_bar_of k d = False"

fun write_mode_of :: "data \<Rightarrow> CatalogWriteMode option" where
  "write_mode_of (DInstrument i) = None"
| "write_mode_of d = Some APPEND"

definition count :: "('a \<Rightarrow> bool) \<Rightarrow> 'a list \<Rightarrow> int" where
  "count P xs = int (length (filter P xs))"

text \<open>The result of a call that answered \<open>r\<close>.\<close>

definition raised :: "string option \<Rightarrow> error + unit" where
  "raised r = (case r of Some e \<Rightarrow> Inl (Exception e) | None \<Rightarrow> Inr ())"

text \<open>A quote of one instrument.\<close>

fun is_quote_of :: "InstrumentId \<Rightarrow> data \<Rightarrow> bool" where
  "is_quote_of i (DQuoteTick t) = (quote_instrument_id t = i)"
| "is_quote_of i d = False"

text \<open>The entries of a list of strings that a parser accepts (the handles) and rejects
  (each with the parser's error), in input order.\<close>

definition rejected :: "(string \<Rightarrow> string + 'h) \<Rightarrow> string list \<Rightarrow> (string \<times> string) list" where
  "rejected from_str strs =
     concat (map (\<lambda>str. case from_str str of Inl e \<Rightarrow> [(str, e)] | Inr h \<Rightarrow> []) strs)"

definition parsed :: "(string \<Rightarrow> string + 'h) \<Rightarrow> string list \<Rightarrow> 'h list" where
  "parsed from_str strs =
     concat (map (\<lambda>str. case from_str str of Inl e \<Rightarrow> [] | Inr h \<Rightarrow> [h]) strs)"

section \<open>Test doubles\<close>

text \<open>A catalog in memory (the world is the list of records written so far), a feed that
  accepts every call, and parsers that reject the empty string.\<close>

fun class_of :: "data \<Rightarrow> data_type" where
  "class_of (DInstrument i) = Named ''Instrument''"
| "class_of (DQuoteTick t) = Named ''QuoteTick''"
| "class_of (DTradeTick t) = Named ''TradeTick''"
| "class_of (DOrderBookDeltas x) = Named ''OrderBookDeltas''"
| "class_of (DBar b) = Named ''Bar''"

definition sim_env :: "data list env" where
  "sim_env =
     \<lparr>bar_type_from_str = (\<lambda>str. if str = [] then Inl ''empty'' else Inr (BarType str)),
      instrument_id_from_str =
        (\<lambda>str. if str = [] then Inl ''empty'' else Inr (InstrumentId str)),
      actor = (\<lambda>w c. (None, w)),
      write_data = (\<lambda>w records mode. (None, w @ records)),
      list_data_types = (\<lambda>w. Inr (remdups (map class_of w)))\<rparr>"

text \<open>The same with a catalog whose every write raises.\<close>

definition full_disk_env :: "data list env" where
  "full_disk_env = sim_env\<lparr>write_data := (\<lambda>w records mode. (Some ''disk full'', w))\<rparr>"

definition cfg0 :: BinanceDataStreamerConfig where
  "cfg0 =
     \<lparr>cfg_instrument_ids = [''ADA'', '''', ''LTC''],
      cfg_bar_types = [''ADA-1-MINUTE'', '''', ''LTC-1-MINUTE''],
      cfg_catalog_path = ''./data/catalog''\<rparr>"

text \<open>Sample objects.\<close>

definition ada :: InstrumentId where
  "ada = InstrumentId ''ADA''"

definition ltc :: InstrumentId where
  "ltc = InstrumentId ''LTC''"

definition quote0 :: "InstrumentId \<Rightarrow> data" where
  "quote0 i = DQuoteTick (QuoteTick i ''0.25'' ''0.26'')"

definition trade0 :: "InstrumentId \<Rightarrow> data" where
  "trade0 i = DTradeTick (TradeTick i ''0.25'' ''100'')"

definition bar0 :: "string \<Rightarrow> Bar" where
  "bar0 k = Bar (BarType k) ''1'' ''2'' ''1'' ''2'' ''9''"

section \<open>Subscription plans\<close>

text \<open>The subscription calls of a start and of a stop, in the order of the two loops:
  for each instrument its calls, then one call for each bar type.\<close>

definition subscriptions :: "BookType \<Rightarrow> InstrumentId list \<Rightarrow> BarType list \<Rightarrow> actor_call list" where
  "subscriptions bt ids bts =
     concat (map (\<lambda>i. [subscribe_instrument i, subscribe_quote_ticks i,
                         subscribe_trade_ticks i, subscribe_order_book_deltas i bt 0]) ids)
     @ map subscribe_bars bts"

definition unsubscriptions :: "BookType \<Rightarrow> InstrumentId list \<Rightarrow> BarType list \<Rightarrow> actor_call list" where
  "unsubscriptions bt ids bts =
     concat (map (\<lambda>i. [unsubscribe_quote_ticks i, unsubscribe_trade_ticks i,
                         unsubscribe_order_book_deltas i bt]) ids)
     @ map unsubscribe_bars bts"

text \<open>Making a list of calls one after the other until one raises: the result, the calls
  made (the raising one last) and the world left.\<close>

fun issue :: "'w env \<Rightarrow> actor_call list \<Rightarrow> 'w \<Rightarrow> (error + unit) \<times> actor_call list \<times> 'w" where
  "issue env [] w = (Inr (), [], w)"
| "issue env (c # cs) w =
     (case actor env w c of
        (Some e, w') \<Rightarrow> (Inl (Exception e), [c], w')
      | (None, w') \<Rightarrow>
          (case issue env cs w' of (r, issued, w'') \<Rightarrow> (r, c # issued, w'')))"

text \<open>The statements of \<^verbatim>\<open>on_start\<close> and \<^verbatim>\<open>on_stop\<close> as data: a call or an
  info line.\<close>

datatype step = Call actor_call | Say message

fun do_step :: "'w env \<Rightarrow> step \<Rightarrow> 'w stmt" where
  "do_step env (Call c) = call_actor env c"
| "do_step env (Say m) = stmt (log_info m)"

fun calls_of :: "step list \<Rightarrow> actor_call list" where
  "calls_of [] = []"
| "calls_of (Call c # ps) = c # calls_of ps"
| "calls_of (Say m # ps) = calls_of ps"

definition start_steps :: "'w streamer \<Rightarrow> step list" where
  "start_steps s =
     Say (Starting (cfg_catalog_path (config s)))
     # concat (map (\<lambda>i. [Call (subscribe_instrument i),
                          Call (subscribe_quote_ticks i), Say (SubscribedQuoteTicks i),
                          Call (subscribe_trade_ticks i), Say (SubscribedTradeTicks i),
                          Call (subscribe_order_book_deltas i (book_type s) 0),
                          Say (SubscribedOrderBook i)]) (instrument_ids s))
     @ concat (map (\<lambda>b. [Call (subscribe_bars b), Say (SubscribedBars b)]) (bar_types s))"

definition stop_steps :: "'w streamer \<Rightarrow> step list" where
  "stop_steps s =
     Say Stopping
     # concat (map (\<lambda>i. [Call (unsubscribe_quote_ticks i), Call (unsubscribe_trade_ticks i),
                          Call (unsubscribe_order_book_deltas i (book_type s))])
                 (instrument_ids s))
     @ map (\<lambda>b. Call (unsubscribe_bars b)) (bar_types s)
     @ [Say (CatalogFlushed (cfg_catalog_path (config s))), Say Stopped]"

text \<open>A feed that rejects every subscription to quotes and every cancellation of one.\<close>

definition no_quotes_env :: "data list env" where
  "no_quotes_env =
     sim_env\<lparr>actor := (\<lambda>w c. (case c of
                                  subscribe_quote_ticks i \<Rightarrow> Some ''rejected''
                                | unsubscribe_quote_ticks i \<Rightarrow> Some ''rejected''
                                | _ \<Rightarrow> None, w))\<rparr>"

text \<open>A configuration with one instrument and one bar type.\<close>

definition cfg1 :: BinanceDataStreamerConfig where
  "cfg1 =
     \<lparr>cfg_instrument_ids = [''ADA''],
      cfg_bar_types = [''ADA-1-MINUTE''],
      cfg_catalog_path = ''./data/catalog''\<rparr>"

text \<open>A feed that takes the arguments of a call as the framework's signature does:
  \<^verbatim>\<open>unsubscribe_order_book_deltas(instrument_id, client_id=None, params=None)\<close> has a
  client id in second place, so the call of \<^verbatim>\<open>on_stop\<close>, which passes the book type
  there, raises \<^verbatim>\<open>TypeError\<close>. Every other call is accepted.\<close>

definition typed_env :: "data list env" where
  "typed_env =
     sim_env\<lparr>actor := (\<lambda>w c. (case c of
                                  unsubscribe_order_book_deltas i bt \<Rightarrow> Some ''TypeError''
                                | _ \<Rightarrow> None, w))\<rparr>"

section \<open>Reports\<close>

fun log_lines :: "effect list \<Rightarrow> (LogLevel \<times> LogColor \<times> message) list" where
  "log_lines [] = []"
| "log_lines (Log l c m # es) = (l, c, m) # log_lines es"
| "log_lines (e # es) = log_lines es"

text \<open>The report of a call of \<^verbatim>\<open>_log_status\<close>: the log lines the call adds.\<close>

definition report :: "'w env \<Rightarrow> string \<Rightarrow> 'w streamer \<Rightarrow> (LogLevel \<times> LogColor \<times> message) list" where
  "report env now s =
     log_lines (drop (length (trace s)) (trace (snd (log_status env now s))))"

text \<open>The lines a report has after its header, from the quote counter, the trade counter,
  the bar counters and the answer of the inventory query.\<close>

definition status_body ::
    "int \<Rightarrow> int \<Rightarrow> (string \<times> int) list \<Rightarrow> string + data_type list
      \<Rightarrow> (LogLevel \<times> LogColor \<times> message) list" where
  "status_body quotes trades bars inventory =
     [(INFO, YELLOW, QuoteTotal quotes), (INFO, YELLOW, TradeTotal trades)]
     @ map (\<lambda>(bar_type_str, n). (INFO, YELLOW, BarTotal bar_type_str n)) bars
     @ (case inventory of
          Inr data_types \<Rightarrow>
            (INFO, MAGENTA, CatalogDataTypes data_types)
            # map (\<lambda>data_type. (INFO, MAGENTA, DataTypeWritten (type_name data_type))) data_types
        | Inl e \<Rightarrow> [(ERROR, NORMAL, CatalogStatsError e)])"

section \<open>The callbacks, step by step\<close>

lemma writes_append: "writes (xs @ ys) = writes xs @ writes ys"
  by (induction xs rule: writes.induct) simp_all

lemma actor_calls_append: "actor_calls (xs @ ys) = actor_calls xs @ actor_calls ys"
  by (induction xs rule: actor_calls.induct) simp_all

lemma logged_append: "logged lvl (xs @ ys) = logged lvl xs @ logged lvl ys"
  by (induction lvl xs rule: logged.induct) simp_all



lemma map_of_dict_set: "map_of (dict_set k v d) k' = (if k' = k then Some v else map_of d k')"
  by (simp add: dict_set_def update_conv')

lemma dict_get_dict_set:
  "dict_get (dict_set k v d) k' dflt = (if k' = k then v else dict_get d k' dflt)"
  by (simp add: dict_get_def map_of_dict_set)

lemmas stmt_defs =
  stmt_def log_info_def log_error_def log_to_def call_write_data_def call_actor_def

lemma on_instrument_eq:
  "on_instrument env i s =
     (raised (fst (write_data env (world s) [DInstrument i] None)),
      s\<lparr>world := snd (write_data env (world s) [DInstrument i] None),
        trace := trace s @ [Log INFO NORMAL (InstrumentReceived (id_of i)),
                            WriteData [DInstrument i] None]\<rparr>)"
  by (simp add: on_instrument_def stmt_defs raised_def split: prod.splits option.splits)

lemma on_quote_tick_eq:
  "on_quote_tick env t s =
     (raised (fst (write_data env (world s) [DQuoteTick t] (Some APPEND))),
      s\<lparr>quote_count := quote_count s + 1,
        world := snd (write_data env (world s) [DQuoteTick t] (Some APPEND)),
        trace := trace s
          @ (if (quote_count s + 1) mod 100 = 0
             then [Log INFO NORMAL (QuoteTickReceived (quote_count s + 1)
                     (quote_instrument_id t) (bid_price t) (ask_price t))]
             else [])
          @ [WriteData [DQuoteTick t] (Some APPEND)]\<rparr>)"
  by (simp add: on_quote_tick_def stmt_defs raised_def split: prod.splits option.splits)

lemma on_trade_tick_eq:
  "on_trade_tick env t s =
     (raised (fst (write_data env (world s) [DTradeTick t] (Some APPEND))),
      s\<lparr>trade_count := trade_count s + 1,
        world := snd (write_data env (world s) [DTradeTick t] (Some APPEND)),
        trace := trace s
          @ (if (trade_count s + 1) mod 10 = 0
             then [Log INFO NORMAL (TradeTickReceived (trade_count s + 1)
                     (trade_instrument_id t) (trade_price t) (trade_size t))]
             else [])
          @ [WriteData [DTradeTick t] (Some APPEND)]\<rparr>)"
  by (simp add: on_trade_tick_def stmt_defs raised_def split: prod.splits option.splits)

lemma on_order_book_deltas_eq:
  "on_order_book_deltas env x s =
     (raised (fst (write_data env (world s) [DOrderBookDeltas x] (Some APPEND))),
      s\<lparr>deltas_count := deltas_count s + 1,
        world := snd (write_data env (world s) [DOrderBookDeltas x] (Some APPEND)),
        trace := trace s
          @ (if (deltas_count s + 1) mod 100 = 0
             then [Log INFO NORMAL (OrderBookReceived (deltas_count s + 1)
                     (deltas_instrument_id x))]
             else [])
          @ [WriteData [DOrderBookDeltas x] (Some APPEND)]\<rparr>)"
  by (simp add: on_order_book_deltas_def stmt_defs raised_def split: prod.splits option.splits)

lemma on_bar_eq:
  "on_bar env b s =
     (raised (fst (write_data env (world s) [DBar b] (Some APPEND))),
      s\<lparr>bar_counts := dict_set (str_bar_type (bar_type b))
                         (dict_get (bar_counts s) (str_bar_type (bar_type b)) 0 + 1)
                         (bar_counts s),
        world := snd (write_data env (world s) [DBar b] (Some APPEND)),
        trace := trace s
          @ [Log INFO NORMAL (BarReceived
               (dict_get (bar_counts s) (str_bar_type (bar_type b)) 0 + 1)
               (str_bar_type (bar_type b)) (bar_open b) (bar_high b) (bar_low b)
               (bar_close b) (bar_volume b)),
             WriteData [DBar b] (Some APPEND)]\<rparr>)"
  by (simp add: on_bar_def Let_def stmt_defs raised_def map_of_dict_set
           split: prod.splits option.splits)

lemmas handler_eqs =
  on_instrument_eq on_quote_tick_eq on_trade_tick_eq on_order_book_deltas_eq on_bar_eq

lemma quote_count_handle:
  "quote_count (snd (handle_data env d s)) = quote_count s + (if is_quote d then 1 else 0)"
  by (cases d) (simp_all add: handler_eqs)

lemma trade_count_handle:
  "trade_count (snd (handle_data env d s)) = trade_count s + (if is_trade d then 1 else 0)"
  by (cases d) (simp_all add: handler_eqs)

lemma deltas_count_handle:
  "deltas_count (snd (handle_data env d s)) = deltas_count s + (if is_deltas d then 1 else 0)"
  by (cases d) (simp_all add: handler_eqs)

lemma bar_counts_handle:
  "dict_get (bar_counts (snd (handle_data env d s))) k 0 =
     dict_get (bar_counts s) k 0 + (if is_bar_of k d then 1 else 0)"
  by (cases d) (simp_all add: handler_eqs dict_get_dict_set)




lemma quote_count_deliver:
  "quote_count (deliver env ds s) = quote_count s + count is_quote ds"
  by (induction ds arbitrary: s) (simp_all add: quote_count_handle count_def)

lemma trade_count_deliver:
  "trade_count (deliver env ds s) = trade_count s + count is_trade ds"
  by (induction ds arbitrary: s) (simp_all add: trade_count_handle count_def)

lemma deltas_count_deliver:
  "deltas_count (deliver env ds s) = deltas_count s + count is_deltas ds"
  by (induction ds arbitrary: s) (simp_all add: deltas_count_handle count_def)

lemma bar_counts_deliver:
  "dict_get (bar_counts (deliver env ds s)) k 0 =
     dict_get (bar_counts s) k 0 + count (is_bar_of k) ds"
  by (induction ds arbitrary: s) (simp_all add: bar_counts_handle count_def)






section \<open>Construction\<close>

lemma parse_bar_types_eq:
  "parse_bar_types env strs s =
     s\<lparr>bar_counts := foldl (\<lambda>d str. dict_set str 0 d) (bar_counts s)
                        (filter (\<lambda>str. \<not> isl (bar_type_from_str env str)) strs),
       bar_types := bar_types s @ parsed (bar_type_from_str env) strs,
       trace := trace s @ map (\<lambda>(str, e). Log ERROR NORMAL (BarTypeParseError str e))
                            (rejected (bar_type_from_str env) strs)\<rparr>"
proof (induction strs arbitrary: s)
  case Nil
  then show ?case by (simp add: parsed_def rejected_def)
next
  case (Cons a strs)
  show ?case
    by (cases "bar_type_from_str env a")
       (simp_all add: Cons.IH parsed_def rejected_def log_error_def log_to_def)
qed

lemma parse_instrument_ids_eq:
  "parse_instrument_ids env strs s =
     s\<lparr>instrument_ids := instrument_ids s @ parsed (instrument_id_from_str env) strs,
       trace := trace s @ map (\<lambda>(str, e). Log ERROR NORMAL (InstrumentIdParseError str e))
                            (rejected (instrument_id_from_str env) strs)\<rparr>"
proof (induction strs arbitrary: s)
  case Nil
  then show ?case by (simp add: parsed_def rejected_def)
next
  case (Cons a strs)
  show ?case
    by (cases "instrument_id_from_str env a")
       (simp_all add: Cons.IH parsed_def rejected_def log_error_def log_to_def)
qed

lemma init_eq:
  "init env cfg w =
     \<lparr>config = cfg, quote_count = 0, trade_count = 0, deltas_count = 0,
      book_count = 0, book_type = L2_MBP, book = [],
      bar_counts = foldl (\<lambda>d str. dict_set str 0 d) []
                     (filter (\<lambda>str. \<not> isl (bar_type_from_str env str)) (cfg_bar_types cfg)),
      bar_types = parsed (bar_type_from_str env) (cfg_bar_types cfg),
      instrument_ids = parsed (instrument_id_from_str env) (cfg_instrument_ids cfg),
      world = w,
      trace = map (\<lambda>(str, e). Log ERROR NORMAL (BarTypeParseError str e))
                (rejected (bar_type_from_str env) (cfg_bar_types cfg))
              @ map (\<lambda>(str, e). Log ERROR NORMAL (InstrumentIdParseError str e))
                  (rejected (instrument_id_from_str env) (cfg_instrument_ids cfg))\<rparr>"
  by (simp add: init_def parse_bar_types_eq parse_instrument_ids_eq)

lemma map_Inr_parsed: "map Inr (parsed f strs) = filter (\<lambda>r. \<not> isl r) (map f strs)"
proof (induction strs)
  case Nil
  then show ?case by (simp add: parsed_def)
next
  case (Cons a strs)
  then show ?case by (cases "f a") (simp_all add: parsed_def)
qed

lemma map_Inl_rejected: "map (Inl \<circ> snd) (rejected f strs) = filter isl (map f strs)"
proof (induction strs)
  case Nil
  then show ?case by (simp add: rejected_def)
next
  case (Cons a strs)
  then show ?case by (cases "f a") (simp_all add: rejected_def)
qed

lemma length_rejected: "length (rejected f strs) = length strs - length (parsed f strs)"
proof -
  have "length (rejected f strs) + length (parsed f strs) = length strs"
  proof (induction strs)
    case Nil
    then show ?case by (simp add: parsed_def rejected_def)
  next
    case (Cons a strs)
    then show ?case by (cases "f a") (simp_all add: parsed_def rejected_def)
  qed
  then show ?thesis by simp
qed

lemma logged_errors_map:
  "logged ERROR (map (\<lambda>(str, e). Log ERROR NORMAL (g str e)) xs) = map (\<lambda>(str, e). g str e) xs"
  by (induction xs) auto

lemma writes_errors_map:
  "writes (map (\<lambda>(str, e). Log ERROR NORMAL (g str e)) xs) = []"
  by (induction xs) auto


section \<open>Counting\<close>










lemma writes_init: "writes (trace (init env cfg w)) = []"
  by (simp add: init_eq writes_append writes_errors_map)

section \<open>Start and stop as plans\<close>

lemma actor_calls_errors_map:
  "actor_calls (map (\<lambda>(str, e). Log ERROR NORMAL (g str e)) xs) = []"
  by (induction xs) auto

lemma calls_of_append: "calls_of (ps @ qs) = calls_of ps @ calls_of qs"
  by (induction ps rule: calls_of.induct) simp_all

lemma on_start_steps: "on_start env s = run_stmts (map (do_step env) (start_steps s)) s"
proof -
  have a: "subscribe_all env bt = (\<lambda>i. map (do_step env)
             [Call (subscribe_instrument i),
              Call (subscribe_quote_ticks i), Say (SubscribedQuoteTicks i),
              Call (subscribe_trade_ticks i), Say (SubscribedTradeTicks i),
              Call (subscribe_order_book_deltas i bt 0), Say (SubscribedOrderBook i)])" for bt
    by (rule ext) (simp add: subscribe_all_def)
  have b: "subscribe_bar env = (\<lambda>b. map (do_step env)
             [Call (subscribe_bars b), Say (SubscribedBars b)])"
    by (rule ext) (simp add: subscribe_bar_def)
  show ?thesis
    by (simp add: on_start_def start_steps_def a b map_concat comp_def)
qed

lemma on_stop_steps: "on_stop env s = run_stmts (map (do_step env) (stop_steps s)) s"
proof -
  have a: "unsubscribe_all env bt = (\<lambda>i. map (do_step env)
             [Call (unsubscribe_quote_ticks i), Call (unsubscribe_trade_ticks i),
              Call (unsubscribe_order_book_deltas i bt)])" for bt
    by (rule ext) (simp add: unsubscribe_all_def)
  show ?thesis
    by (simp add: on_stop_def stop_steps_def a map_concat comp_def)
qed

lemma calls_of_start_steps:
  "calls_of (start_steps s) = subscriptions (book_type s) (instrument_ids s) (bar_types s)"
proof -
  have a: "calls_of (concat (map (\<lambda>i. [Call (subscribe_instrument i),
                          Call (subscribe_quote_ticks i), Say (SubscribedQuoteTicks i),
                          Call (subscribe_trade_ticks i), Say (SubscribedTradeTicks i),
                          Call (subscribe_order_book_deltas i bt 0),
                          Say (SubscribedOrderBook i)]) ids))
         = concat (map (\<lambda>i. [subscribe_instrument i, subscribe_quote_ticks i,
                         subscribe_trade_ticks i, subscribe_order_book_deltas i bt 0]) ids)"
    for bt ids
    by (induction ids) simp_all
  have b: "calls_of (concat (map (\<lambda>b. [Call (subscribe_bars b), Say (SubscribedBars b)]) bts))
         = map subscribe_bars bts" for bts
    by (induction bts) simp_all
  show ?thesis
    by (simp add: start_steps_def subscriptions_def calls_of_append a b)
qed

lemma calls_of_stop_steps:
  "calls_of (stop_steps s) = unsubscriptions (book_type s) (instrument_ids s) (bar_types s)"
proof -
  have a: "calls_of (concat (map (\<lambda>i. [Call (unsubscribe_quote_ticks i),
                          Call (unsubscribe_trade_ticks i),
                          Call (unsubscribe_order_book_deltas i bt)]) ids))
         = concat (map (\<lambda>i. [unsubscribe_quote_ticks i, unsubscribe_trade_ticks i,
                         unsubscribe_order_book_deltas i bt]) ids)"
    for bt ids
    by (induction ids) simp_all
  have b: "calls_of (map (\<lambda>b. Call (unsubscribe_bars b)) bts) = map unsubscribe_bars bts" for bts
    by (induction bts) simp_all
  show ?thesis
    by (simp add: stop_steps_def unsubscriptions_def calls_of_append a b)
qed

lemma run_steps:
  "fst (run_stmts (map (do_step env) ps) s) = fst (issue env (calls_of ps) (world s))
   \<and> actor_calls (trace (snd (run_stmts (map (do_step env) ps) s))) =
       actor_calls (trace s) @ fst (snd (issue env (calls_of ps) (world s)))
   \<and> world (snd (run_stmts (map (do_step env) ps) s)) =
       snd (snd (issue env (calls_of ps) (world s)))
   \<and> (snd (run_stmts (map (do_step env) ps) s))\<lparr>world := wx, trace := tx\<rparr> =
       s\<lparr>world := wx, trace := tx\<rparr>"
proof (induction ps arbitrary: s)
  case Nil
  then show ?case by simp
next
  case (Cons p ps)
  show ?case
  proof (cases p)
    case (Call c)
    obtain r w' where a: "actor env (world s) c = (r, w')"
      by (cases "actor env (world s) c")
    show ?thesis
    proof (cases r)
      case None
      then show ?thesis
        using Call a Cons.IH [of "s\<lparr>world := w', trace := trace s @ [Actor c]\<rparr>"]
        by (simp add: call_actor_def actor_calls_append split: prod.splits)
    next
      case (Some e)
      then show ?thesis
        using Call a by (simp add: call_actor_def actor_calls_append)
    qed
  next
    case (Say m)
    then show ?thesis
      using Cons.IH [of "log_info m s"]
      by (simp add: stmt_def log_info_def log_to_def actor_calls_append)
  qed
qed

lemma issue_all:
  "(\<And>w c. fst (actor env w c) = None) \<Longrightarrow>
     fst (issue env cs w) = Inr () \<and> fst (snd (issue env cs w)) = cs"
proof (induction cs arbitrary: w)
  case Nil
  then show ?case by simp
next
  case (Cons c cs)
  obtain r w' where a: "actor env w c = (r, w')"
    by (cases "actor env w c")
  have "r = None"
    using Cons.prems [of w c] a by simp
  then show ?case
    using a Cons.IH [OF Cons.prems, of w'] by (auto split: prod.splits)
qed

lemma issue_raise:
  "fst (issue env before w) = Inr () \<Longrightarrow>
   fst (actor env (snd (snd (issue env before w))) c) = Some e \<Longrightarrow>
     fst (issue env (before @ c # after) w) = Inl (Exception e)
     \<and> fst (snd (issue env (before @ c # after) w)) = before @ [c]"
proof (induction before arbitrary: w)
  case Nil
  then show ?case by (cases "actor env w c") simp
next
  case (Cons b before)
  obtain r w' where a: "actor env w b = (r, w')"
    by (cases "actor env w b")
  show ?case
  proof (cases r)
    case None
    then show ?thesis
      using a Cons.prems Cons.IH [of w'] by (auto split: prod.splits)
  next
    case (Some e')
    then show ?thesis
      using a Cons.prems by simp
  qed
qed

lemma on_start_issue:
  "fst (on_start env s) =
     fst (issue env (subscriptions (book_type s) (instrument_ids s) (bar_types s)) (world s))
   \<and> actor_calls (trace (snd (on_start env s))) =
       actor_calls (trace s)
       @ fst (snd (issue env (subscriptions (book_type s) (instrument_ids s) (bar_types s))
                     (world s)))"
  using run_steps [of env "start_steps s" s]
  by (simp add: on_start_steps calls_of_start_steps)

lemma on_stop_issue:
  "fst (on_stop env s) =
     fst (issue env (unsubscriptions (book_type s) (instrument_ids s) (bar_types s)) (world s))
   \<and> actor_calls (trace (snd (on_stop env s))) =
       actor_calls (trace s)
       @ fst (snd (issue env (unsubscriptions (book_type s) (instrument_ids s) (bar_types s))
                     (world s)))"
  using run_steps [of env "stop_steps s" s]
  by (simp add: on_stop_steps calls_of_stop_steps)

lemma on_start_frame:
  "(snd (on_start env s))\<lparr>world := wx, trace := tx\<rparr> = s\<lparr>world := wx, trace := tx\<rparr>"
  using run_steps [of env "start_steps s" s] by (simp add: on_start_steps)

lemma frame_fields:
  "s'\<lparr>world := world s, trace := trace s\<rparr> = s\<lparr>world := world s, trace := trace s\<rparr> \<Longrightarrow>
     instrument_ids s' = instrument_ids s \<and> bar_types s' = bar_types s
     \<and> book_type s' = book_type s \<and> config s' = config s"
proof -
  assume a: "s'\<lparr>world := world s, trace := trace s\<rparr> = s\<lparr>world := world s, trace := trace s\<rparr>"
  have "instrument_ids (s'\<lparr>world := world s, trace := trace s\<rparr>) = instrument_ids s"
    and "bar_types (s'\<lparr>world := world s, trace := trace s\<rparr>) = bar_types s"
    and "book_type (s'\<lparr>world := world s, trace := trace s\<rparr>) = book_type s"
    and "config (s'\<lparr>world := world s, trace := trace s\<rparr>) = config s"
    by (simp_all add: a)
  then show ?thesis by simp
qed

lemmas on_start_fields = frame_fields [OF on_start_frame]

lemma actor_calls_init: "actor_calls (trace (init env cfg w)) = []"
  by (simp add: init_eq actor_calls_append actor_calls_errors_map)

section \<open>The status report, step by step\<close>

lemma log_lines_append: "log_lines (xs @ ys) = log_lines xs @ log_lines ys"
  by (induction xs rule: log_lines.induct) simp_all

lemma foldl_bar_totals:
  "foldl (\<lambda>s' (bar_type_str, n). log_to INFO YELLOW (BarTotal bar_type_str n) s') s xs =
     s\<lparr>trace := trace s @ map (\<lambda>(bar_type_str, n). Log INFO YELLOW (BarTotal bar_type_str n)) xs\<rparr>"
  by (induction xs arbitrary: s) (auto simp: log_to_def)

lemma foldl_data_types:
  "foldl (\<lambda>s' data_type. log_to INFO MAGENTA (DataTypeWritten (type_name data_type)) s') s xs =
     s\<lparr>trace := trace s
         @ map (\<lambda>data_type. Log INFO MAGENTA (DataTypeWritten (type_name data_type))) xs\<rparr>"
  by (induction xs arbitrary: s) (auto simp: log_to_def)

lemma log_status_eq:
  "log_status env now s =
     (Inr (),
      s\<lparr>trace := trace s
          @ [Log INFO YELLOW (StatusReport now), Log INFO YELLOW (QuoteTotal (quote_count s)),
             Log INFO YELLOW (TradeTotal (trade_count s))]
          @ map (\<lambda>(bar_type_str, n). Log INFO YELLOW (BarTotal bar_type_str n)) (bar_counts s)
          @ [ListDataTypes]
          @ (case list_data_types env (world s) of
               Inr data_types \<Rightarrow>
                 Log INFO MAGENTA (CatalogDataTypes data_types)
                 # map (\<lambda>data_type. Log INFO MAGENTA (DataTypeWritten (type_name data_type)))
                     data_types
             | Inl e \<Rightarrow> [Log ERROR NORMAL (CatalogStatsError e)])\<rparr>)"
proof (cases "list_data_types env (world s)")
  case (Inl e)
  then show ?thesis
    by (simp add: log_status_def stmt_def foldl_bar_totals foldl_data_types)
       (simp add: log_to_def log_error_def foldl_bar_totals [unfolded log_to_def]
          foldl_data_types [unfolded log_to_def])
next
  case (Inr data_types)
  then show ?thesis
    by (simp add: log_status_def stmt_def foldl_bar_totals foldl_data_types)
       (simp add: log_to_def log_error_def foldl_bar_totals [unfolded log_to_def]
          foldl_data_types [unfolded log_to_def])
qed

lemma log_lines_bar_totals:
  "log_lines (map (\<lambda>(bar_type_str, n). Log INFO YELLOW (BarTotal bar_type_str n)) xs) =
     map (\<lambda>(bar_type_str, n). (INFO, YELLOW, BarTotal bar_type_str n)) xs"
  by (induction xs) auto

lemma log_lines_data_types:
  "log_lines (map (\<lambda>data_type. Log INFO MAGENTA (DataTypeWritten (type_name data_type))) xs) =
     map (\<lambda>data_type. (INFO, MAGENTA, DataTypeWritten (type_name data_type))) xs"
  by (induction xs) auto

lemma writes_bar_totals:
  "writes (map (\<lambda>(bar_type_str, n). Log INFO YELLOW (BarTotal bar_type_str n)) xs) = []"
  by (induction xs) auto

lemma writes_data_types:
  "writes (map (\<lambda>data_type. Log INFO MAGENTA (DataTypeWritten (type_name data_type))) xs) = []"
  by (induction xs) auto

lemma actor_calls_bar_totals:
  "actor_calls (map (\<lambda>(bar_type_str, n). Log INFO YELLOW (BarTotal bar_type_str n)) xs) = []"
  by (induction xs) auto

lemma actor_calls_data_types:
  "actor_calls (map (\<lambda>data_type. Log INFO MAGENTA (DataTypeWritten (type_name data_type))) xs) = []"
  by (induction xs) auto

lemma report_eq:
  "report env now s =
     (INFO, YELLOW, StatusReport now)
     # status_body (quote_count s) (trade_count s) (bar_counts s) (list_data_types env (world s))"
  by (cases "list_data_types env (world s)")
     (simp_all add: report_def log_status_eq status_body_def log_lines_append
        log_lines_bar_totals log_lines_data_types)

lemma log_status_frame: "(snd (log_status env now s))\<lparr>trace := trace s\<rparr> = s"
  by (simp add: log_status_eq)

lemma log_status_quiet:
  "writes (trace (snd (log_status env now s))) = writes (trace s)
   \<and> actor_calls (trace (snd (log_status env now s))) = actor_calls (trace s)"
  by (cases "list_data_types env (world s)")
     (simp_all add: log_status_eq writes_append actor_calls_append writes_bar_totals
        writes_data_types actor_calls_bar_totals actor_calls_data_types)

section \<open>The claims\<close>

text \<open>
  Claim C8. Whatever mix of valid and invalid strings the configuration lists, construction
  keeps exactly the entries that parse, in their input order (the handles kept are the
  successful parse results, filtered in place), logs one error line for each entry that
  does not parse (bar types first, then instruments, each in input order) and goes on
  with the rest; the number of skipped entries is the number of inputs minus the number
  of handles kept.
\<close>

theorem resolver_stable_filter:
  "map Inr (instrument_ids (init env cfg w)) =
     filter (\<lambda>r. \<not> isl r) (map (instrument_id_from_str env) (cfg_instrument_ids cfg))
   \<and> map Inr (bar_types (init env cfg w)) =
     filter (\<lambda>r. \<not> isl r) (map (bar_type_from_str env) (cfg_bar_types cfg))
   \<and> logged ERROR (trace (init env cfg w)) =
       map (\<lambda>(str, e). BarTypeParseError str e)
         (rejected (bar_type_from_str env) (cfg_bar_types cfg))
       @ map (\<lambda>(str, e). InstrumentIdParseError str e)
           (rejected (instrument_id_from_str env) (cfg_instrument_ids cfg))
   \<and> map (Inl \<circ> snd) (rejected (instrument_id_from_str env) (cfg_instrument_ids cfg)) =
       filter isl (map (instrument_id_from_str env) (cfg_instrument_ids cfg))
   \<and> map (Inl \<circ> snd) (rejected (bar_type_from_str env) (cfg_bar_types cfg)) =
       filter isl (map (bar_type_from_str env) (cfg_bar_types cfg))
   \<and> length (rejected (instrument_id_from_str env) (cfg_instrument_ids cfg)) =
       length (cfg_instrument_ids cfg) - length (instrument_ids (init env cfg w))
   \<and> length (rejected (bar_type_from_str env) (cfg_bar_types cfg)) =
       length (cfg_bar_types cfg) - length (bar_types (init env cfg w))"
  by (simp add: init_eq map_Inr_parsed map_Inl_rejected length_rejected logged_append
        logged_errors_map)

theorem resolver_stable_filter_witness:
  "instrument_ids (init sim_env cfg0 []) = [InstrumentId ''ADA'', InstrumentId ''LTC'']
   \<and> bar_types (init sim_env cfg0 []) = [BarType ''ADA-1-MINUTE'', BarType ''LTC-1-MINUTE'']
   \<and> logged ERROR (trace (init sim_env cfg0 [])) =
       [BarTypeParseError '''' ''empty'', InstrumentIdParseError '''' ''empty'']"
  using resolver_stable_filter [of sim_env cfg0 "[]"]
  by (simp add: sim_env_def cfg0_def rejected_def map_eq_Cons_conv)





text \<open>
  Claim C2, as the code has it. The streamer keeps one quote counter, one trade counter and
  one order book counter for all instruments together, and one bar counter for each bar
  type string. After any sequence of delivered objects, whatever their order and whether
  or not their writes raise, each of the three counters has grown by the number of
  objects of its category (of every instrument), and the bar counter of a string by the
  number of bars of that string (an absent counter reads 0).
\<close>

theorem counters_count_categories:
  "quote_count (deliver env ds s) = quote_count s + count is_quote ds
   \<and> trade_count (deliver env ds s) = trade_count s + count is_trade ds
   \<and> deltas_count (deliver env ds s) = deltas_count s + count is_deltas ds
   \<and> dict_get (bar_counts (deliver env ds s)) k 0 =
       dict_get (bar_counts s) k 0 + count (is_bar_of k) ds"
  by (simp add: quote_count_deliver trade_count_deliver deltas_count_deliver bar_counts_deliver)

theorem counters_count_categories_witness:
  "quote_count (deliver sim_env [quote0 ada, DBar (bar0 ''ADA-1-MINUTE''), trade0 ada,
      quote0 ltc, DBar (bar0 ''LTC-1-MINUTE''), DBar (bar0 ''ADA-1-MINUTE'')]
      (init sim_env cfg0 [])) = 2
   \<and> dict_get (bar_counts (deliver full_disk_env [quote0 ada, DBar (bar0 ''ADA-1-MINUTE''),
      trade0 ada, quote0 ltc, DBar (bar0 ''LTC-1-MINUTE''), DBar (bar0 ''ADA-1-MINUTE'')]
      (init full_disk_env cfg0 []))) ''ADA-1-MINUTE'' 0 = 2"
  using counters_count_categories [of sim_env "[quote0 ada, DBar (bar0 ''ADA-1-MINUTE''),
      trade0 ada, quote0 ltc, DBar (bar0 ''LTC-1-MINUTE''), DBar (bar0 ''ADA-1-MINUTE'')]"
      "init sim_env cfg0 []" "''ADA-1-MINUTE''"]
    counters_count_categories [of full_disk_env "[quote0 ada, DBar (bar0 ''ADA-1-MINUTE''),
      trade0 ada, quote0 ltc, DBar (bar0 ''LTC-1-MINUTE''), DBar (bar0 ''ADA-1-MINUTE'')]"
      "init full_disk_env cfg0 []" "''ADA-1-MINUTE''"]
  by (simp add: init_eq count_def quote0_def trade0_def bar0_def dict_get_dict_set
        full_disk_env_def sim_env_def cfg0_def dict_get_def map_of_dict_set)

text \<open>Claim C2 as stated fails: one quote of ADA and one of LTC leave the quote counter, the
  only counter there is for ADA's quotes, at 2, while one quote of ADA was delivered.\<close>

theorem per_instrument_counter_counterexample:
  "count (is_quote_of ada) [quote0 ada, quote0 ltc] = 1
   \<and> quote_count (deliver sim_env [quote0 ada, quote0 ltc] (init sim_env cfg0 [])) = 2"
  by (simp add: count_def quote0_def ada_def ltc_def on_quote_tick_eq init_eq)

text \<open>
  Claim C10, as the code has it. A bar whose bar type string has no counter yet does not
  make the callback fail on the missing key: the counter is created with value 1, the bar
  line is logged with count 1 and the write of the bar alone, in append mode, is made.
  The callback raises no \<^verbatim>\<open>KeyError\<close>; it returns when the write returns and raises
  what the write raises.
\<close>

theorem on_bar_unknown_bar_type:
  "map_of (bar_counts s) (str_bar_type (bar_type b)) = None \<Longrightarrow>
     fst (on_bar env b s) = raised (fst (write_data env (world s) [DBar b] (Some APPEND)))
     \<and> (fst (write_data env (world s) [DBar b] (Some APPEND)) = None
          \<longrightarrow> fst (on_bar env b s) = Inr ())
     \<and> (fst (write_data env (world s) [DBar b] (Some APPEND)) = Some e
          \<longrightarrow> fst (on_bar env b s) = Inl (Exception e))
     \<and> map_of (bar_counts (snd (on_bar env b s))) (str_bar_type (bar_type b)) = Some 1
     \<and> trace (snd (on_bar env b s)) =
         trace s @ [Log INFO NORMAL (BarReceived 1 (str_bar_type (bar_type b)) (bar_open b)
                      (bar_high b) (bar_low b) (bar_close b) (bar_volume b)),
                    WriteData [DBar b] (Some APPEND)]"
  by (simp add: on_bar_eq map_of_dict_set dict_get_def raised_def)

theorem on_bar_unknown_bar_type_witness:
  "map_of (bar_counts (init sim_env cfg0 [])) (str_bar_type (bar_type (bar0 ''SOL-5-MINUTE''))) = None
   \<and> fst (on_bar sim_env (bar0 ''SOL-5-MINUTE'') (init sim_env cfg0 [])) = Inr ()
   \<and> map_of (bar_counts (snd (on_bar sim_env (bar0 ''SOL-5-MINUTE'') (init sim_env cfg0 []))))
        ''SOL-5-MINUTE'' = Some 1
   \<and> writes (trace (snd (on_bar sim_env (bar0 ''SOL-5-MINUTE'') (init sim_env cfg0 [])))) =
        [([DBar (bar0 ''SOL-5-MINUTE'')], Some APPEND)]
   \<and> map_of (bar_counts (init full_disk_env cfg0 []))
        (str_bar_type (bar_type (bar0 ''SOL-5-MINUTE''))) = None
   \<and> fst (write_data full_disk_env (world (init full_disk_env cfg0 []))
        [DBar (bar0 ''SOL-5-MINUTE'')] (Some APPEND)) = Some ''disk full''
   \<and> fst (on_bar full_disk_env (bar0 ''SOL-5-MINUTE'') (init full_disk_env cfg0 [])) =
        Inl (Exception ''disk full'')
   \<and> map_of (bar_counts (snd (on_bar full_disk_env (bar0 ''SOL-5-MINUTE'')
        (init full_disk_env cfg0 [])))) ''SOL-5-MINUTE'' = Some 1"
proof -
  have h: "map_of (bar_counts (init sim_env cfg0 [])) (str_bar_type (bar_type (bar0 ''SOL-5-MINUTE''))) = None"
    by (simp add: init_eq sim_env_def cfg0_def bar0_def dict_set_def)
  have h': "map_of (bar_counts (init full_disk_env cfg0 []))
        (str_bar_type (bar_type (bar0 ''SOL-5-MINUTE''))) = None"
    by (simp add: init_eq full_disk_env_def sim_env_def cfg0_def bar0_def dict_set_def)
  have w: "fst (write_data full_disk_env (world (init full_disk_env cfg0 []))
        [DBar (bar0 ''SOL-5-MINUTE'')] (Some APPEND)) = Some ''disk full''"
    by (simp add: full_disk_env_def sim_env_def)
  have a: "fst (on_bar sim_env (bar0 ''SOL-5-MINUTE'') (init sim_env cfg0 [])) = Inr ()
   \<and> map_of (bar_counts (snd (on_bar sim_env (bar0 ''SOL-5-MINUTE'') (init sim_env cfg0 []))))
        ''SOL-5-MINUTE'' = Some 1
   \<and> writes (trace (snd (on_bar sim_env (bar0 ''SOL-5-MINUTE'') (init sim_env cfg0 [])))) =
        [([DBar (bar0 ''SOL-5-MINUTE'')], Some APPEND)]"
    using on_bar_unknown_bar_type [OF h, of sim_env "''x''"]
    by (simp add: bar0_def raised_def sim_env_def writes_append writes_init)
  have b: "fst (on_bar full_disk_env (bar0 ''SOL-5-MINUTE'') (init full_disk_env cfg0 [])) =
        Inl (Exception ''disk full'')
   \<and> map_of (bar_counts (snd (on_bar full_disk_env (bar0 ''SOL-5-MINUTE'')
        (init full_disk_env cfg0 [])))) ''SOL-5-MINUTE'' = Some 1"
    using w on_bar_unknown_bar_type [OF h', of full_disk_env "''disk full''"]
    by (simp add: bar0_def raised_def)
  show ?thesis
    using h h' w a b by blast
qed

text \<open>Claim C10 as stated fails: the bar type of the bar has no counter, and the callback
  raises all the same, with the exception of a catalog write that fails.\<close>

theorem on_bar_unknown_bar_type_counterexample:
  "map_of (bar_counts (init full_disk_env cfg0 [])) (str_bar_type (bar_type (bar0 ''SOL-5-MINUTE'')))
     = None
   \<and> fst (on_bar full_disk_env (bar0 ''SOL-5-MINUTE'') (init full_disk_env cfg0 [])) =
       Inl (Exception ''disk full'')"
  by (simp add: on_bar_eq init_eq full_disk_env_def sim_env_def cfg0_def bar0_def dict_set_def
        raised_def)

text \<open>
  Claim C1, as the code has it. No callback catches what the catalog write raises. If the
  write of a delivered object raises, the exception leaves the callback; the counter of
  the object's category has been incremented before the write and stays incremented,
  every other counter is unchanged, and the objects that reach the callbacks afterwards
  are counted from that state.
\<close>

theorem write_failure_leaves_callback:
  "fst (write_data env (world s) [d] (write_mode_of d)) = Some e \<Longrightarrow>
     fst (handle_data env d s) = Inl (Exception e)
     \<and> quote_count (snd (handle_data env d s)) = quote_count s + (if is_quote d then 1 else 0)
     \<and> trade_count (snd (handle_data env d s)) = trade_count s + (if is_trade d then 1 else 0)
     \<and> deltas_count (snd (handle_data env d s)) = deltas_count s + (if is_deltas d then 1 else 0)
     \<and> dict_get (bar_counts (snd (handle_data env d s))) k 0 =
         dict_get (bar_counts s) k 0 + (if is_bar_of k d then 1 else 0)
     \<and> quote_count (deliver env (d # ds) s) = quote_count s + count is_quote (d # ds)
     \<and> trade_count (deliver env (d # ds) s) = trade_count s + count is_trade (d # ds)
     \<and> deltas_count (deliver env (d # ds) s) = deltas_count s + count is_deltas (d # ds)
     \<and> dict_get (bar_counts (deliver env (d # ds) s)) k 0 =
         dict_get (bar_counts s) k 0 + count (is_bar_of k) (d # ds)"
proof -
  assume w: "fst (write_data env (world s) [d] (write_mode_of d)) = Some e"
  have r: "fst (handle_data env d s) = Inl (Exception e)"
    using w by (cases d) (simp_all add: handler_eqs raised_def)
  show ?thesis
    using r
    by (simp only: quote_count_handle trade_count_handle deltas_count_handle
          bar_counts_handle quote_count_deliver trade_count_deliver deltas_count_deliver
          bar_counts_deliver simp_thms)
qed

theorem write_failure_leaves_callback_witness:
  "fst (write_data full_disk_env (world (init full_disk_env cfg0 [])) [quote0 ada]
      (write_mode_of (quote0 ada))) = Some ''disk full''
   \<and> fst (handle_data full_disk_env (quote0 ada) (init full_disk_env cfg0 [])) =
       Inl (Exception ''disk full'')
   \<and> quote_count (snd (handle_data full_disk_env (quote0 ada) (init full_disk_env cfg0 []))) = 1
   \<and> quote_count (deliver full_disk_env [quote0 ada, quote0 ada] (init full_disk_env cfg0 [])) = 2"
proof -
  have h: "fst (write_data full_disk_env (world (init full_disk_env cfg0 [])) [quote0 ada]
      (write_mode_of (quote0 ada))) = Some ''disk full''"
    by (simp add: full_disk_env_def sim_env_def)
  show ?thesis
    using h write_failure_leaves_callback [OF h, of "''x''" "[quote0 ada]"]
    by (simp add: init_eq quote0_def count_def)
qed

text \<open>Claim C1 as stated fails: with a catalog whose write raises, \<^verbatim>\<open>on_quote_tick\<close>
  does not recover from the failure; the exception of the write leaves the callback.\<close>

theorem write_failure_counterexample:
  "fst (on_quote_tick full_disk_env (QuoteTick ada ''0.25'' ''0.26'') (init full_disk_env cfg0 [])) =
     Inl (Exception ''disk full'')"
  by (simp add: on_quote_tick_eq full_disk_env_def sim_env_def raised_def)

text \<open>
  Claim C5, as the code has it. On start the streamer makes, for every resolved instrument in
  turn, the subscribe calls for instrument metadata, quotes, trades and order book deltas
  (book type \<^verbatim>\<open>L2_MBP\<close> as held in \<open>book_type\<close>, depth 0), and then one subscribe call
  for every resolved bar type. The calls are made one after the other and none is
  guarded: when no call raises, all of them are made and \<^verbatim>\<open>on_start\<close> returns; when a
  call raises, the exception leaves \<^verbatim>\<open>on_start\<close> and no later call is made.
\<close>

theorem on_start_subscribes_until_raise:
  "fst (on_start env s) =
     fst (issue env (subscriptions (book_type s) (instrument_ids s) (bar_types s)) (world s))
   \<and> actor_calls (trace (snd (on_start env s))) =
       actor_calls (trace s)
       @ fst (snd (issue env (subscriptions (book_type s) (instrument_ids s) (bar_types s))
                     (world s)))
   \<and> ((\<forall>w c. fst (actor env w c) = None) \<longrightarrow>
        fst (on_start env s) = Inr ()
        \<and> actor_calls (trace (snd (on_start env s))) =
            actor_calls (trace s)
            @ subscriptions (book_type s) (instrument_ids s) (bar_types s))
   \<and> (subscriptions (book_type s) (instrument_ids s) (bar_types s) = before @ c # after
        \<longrightarrow> fst (issue env before (world s)) = Inr ()
        \<longrightarrow> fst (actor env (snd (snd (issue env before (world s)))) c) = Some e
        \<longrightarrow> fst (on_start env s) = Inl (Exception e)
            \<and> actor_calls (trace (snd (on_start env s))) =
                actor_calls (trace s) @ before @ [c])"
proof -
  let ?plan = "subscriptions (book_type s) (instrument_ids s) (bar_types s)"
  have all: "fst (issue env ?plan (world s)) = Inr ()
             \<and> fst (snd (issue env ?plan (world s))) = ?plan"
    if "\<forall>w c. fst (actor env w c) = None"
    using that issue_all [of env ?plan "world s"] by simp
  have stop: "fst (issue env ?plan (world s)) = Inl (Exception e)
              \<and> fst (snd (issue env ?plan (world s))) = before @ [c]"
    if "?plan = before @ c # after" "fst (issue env before (world s)) = Inr ()"
       "fst (actor env (snd (snd (issue env before (world s)))) c) = Some e"
    using that issue_raise [of env before "world s" c e after] by simp
  show ?thesis
    using all stop by (simp add: on_start_issue)
qed

theorem on_start_subscribes_until_raise_witness:
  "(\<forall>w c. fst (actor sim_env w c) = None)
   \<and> fst (on_start sim_env (init sim_env cfg1 [])) = Inr ()
   \<and> actor_calls (trace (snd (on_start sim_env (init sim_env cfg1 [])))) =
       [subscribe_instrument ada, subscribe_quote_ticks ada, subscribe_trade_ticks ada,
        subscribe_order_book_deltas ada L2_MBP 0, subscribe_bars (BarType ''ADA-1-MINUTE'')]
   \<and> subscriptions (book_type (init no_quotes_env cfg1 []))
         (instrument_ids (init no_quotes_env cfg1 [])) (bar_types (init no_quotes_env cfg1 []))
       = [subscribe_instrument ada] @ subscribe_quote_ticks ada
         # [subscribe_trade_ticks ada, subscribe_order_book_deltas ada L2_MBP 0,
            subscribe_bars (BarType ''ADA-1-MINUTE'')]
   \<and> fst (issue no_quotes_env [subscribe_instrument ada] (world (init no_quotes_env cfg1 [])))
       = Inr ()
   \<and> fst (actor no_quotes_env (snd (snd (issue no_quotes_env [subscribe_instrument ada]
         (world (init no_quotes_env cfg1 []))))) (subscribe_quote_ticks ada)) = Some ''rejected''
   \<and> fst (on_start no_quotes_env (init no_quotes_env cfg1 [])) = Inl (Exception ''rejected'')
   \<and> actor_calls (trace (snd (on_start no_quotes_env (init no_quotes_env cfg1 [])))) =
       [subscribe_instrument ada, subscribe_quote_ticks ada]"
proof -
  have h1: "\<forall>w c. fst (actor sim_env w c) = None"
    by (simp add: sim_env_def)
  have h2: "subscriptions (book_type (init no_quotes_env cfg1 []))
         (instrument_ids (init no_quotes_env cfg1 [])) (bar_types (init no_quotes_env cfg1 []))
       = [subscribe_instrument ada] @ subscribe_quote_ticks ada
         # [subscribe_trade_ticks ada, subscribe_order_book_deltas ada L2_MBP 0,
            subscribe_bars (BarType ''ADA-1-MINUTE'')]"
    by (simp add: init_eq subscriptions_def no_quotes_env_def sim_env_def cfg1_def parsed_def
          ada_def)
  have h3: "fst (issue no_quotes_env [subscribe_instrument ada]
                  (world (init no_quotes_env cfg1 []))) = Inr ()"
    by (simp add: no_quotes_env_def sim_env_def)
  have h4: "fst (actor no_quotes_env (snd (snd (issue no_quotes_env [subscribe_instrument ada]
         (world (init no_quotes_env cfg1 []))))) (subscribe_quote_ticks ada)) = Some ''rejected''"
    by (simp add: no_quotes_env_def sim_env_def)
  have tx: "actor_calls (trace (init env cfg w)) = []" for env :: "data list env" and cfg w
    by (simp add: init_eq actor_calls_append actor_calls_errors_map)
  have a: "fst (on_start sim_env (init sim_env cfg1 [])) = Inr ()
     \<and> actor_calls (trace (snd (on_start sim_env (init sim_env cfg1 [])))) =
       [subscribe_instrument ada, subscribe_quote_ticks ada, subscribe_trade_ticks ada,
        subscribe_order_book_deltas ada L2_MBP 0, subscribe_bars (BarType ''ADA-1-MINUTE'')]"
    using h1 on_start_subscribes_until_raise [of sim_env "init sim_env cfg1 []"]
    by (simp add: tx) (simp add: init_eq subscriptions_def sim_env_def cfg1_def parsed_def ada_def)
  have b: "fst (on_start no_quotes_env (init no_quotes_env cfg1 [])) = Inl (Exception ''rejected'')
     \<and> actor_calls (trace (snd (on_start no_quotes_env (init no_quotes_env cfg1 [])))) =
       [subscribe_instrument ada, subscribe_quote_ticks ada]"
    using on_start_subscribes_until_raise [of no_quotes_env "init no_quotes_env cfg1 []"
        "[subscribe_instrument ada]" "subscribe_quote_ticks ada"
        "[subscribe_trade_ticks ada, subscribe_order_book_deltas ada L2_MBP 0,
            subscribe_bars (BarType ''ADA-1-MINUTE'')]" "''rejected''",
        THEN conjunct2, THEN conjunct2, THEN conjunct2, rule_format, OF h2 h3 h4]
    by (simp add: tx)
  show ?thesis
    using h1 h2 h3 h4 a b by blast
qed

text \<open>Claim C5 as stated fails: when the feed rejects the quote subscription of the first
  instrument, the exception leaves \<^verbatim>\<open>on_start\<close>, and the subscriptions to trades, to
  order book deltas and to the bar type are never made.\<close>

theorem on_start_counterexample:
  "fst (on_start no_quotes_env (init no_quotes_env cfg1 [])) = Inl (Exception ''rejected'')
   \<and> actor_calls (trace (snd (on_start no_quotes_env (init no_quotes_env cfg1 [])))) =
       [subscribe_instrument (InstrumentId ''ADA''), subscribe_quote_ticks (InstrumentId ''ADA'')]"
  by (simp add: on_start_issue init_eq subscriptions_def no_quotes_env_def sim_env_def cfg1_def
        parsed_def actor_calls_append actor_calls_errors_map rejected_def)

text \<open>
  Claim C4 at a failing input. A streamer with one instrument and one bar type is started
  and then stopped, on a feed that takes the arguments of each call as the framework
  does. \<^verbatim>\<open>on_stop\<close> cancels the quote and the trade subscription; its call for the
  order book deltas raises \<^verbatim>\<open>TypeError\<close>, which leaves \<^verbatim>\<open>on_stop\<close>; the bar
  subscription is never cancelled, and no call cancels the instrument subscription.
\<close>

theorem on_stop_raises_at_order_book_deltas:
  "fst (on_stop typed_env (snd (on_start typed_env (init typed_env cfg1 [])))) =
     Inl (Exception ''TypeError'')
   \<and> actor_calls (trace (snd (on_stop typed_env
        (snd (on_start typed_env (init typed_env cfg1 []))))))
     = [subscribe_instrument (InstrumentId ''ADA''), subscribe_quote_ticks (InstrumentId ''ADA''),
        subscribe_trade_ticks (InstrumentId ''ADA''),
        subscribe_order_book_deltas (InstrumentId ''ADA'') L2_MBP 0,
        subscribe_bars (BarType ''ADA-1-MINUTE''),
        unsubscribe_quote_ticks (InstrumentId ''ADA''),
        unsubscribe_trade_ticks (InstrumentId ''ADA''),
        unsubscribe_order_book_deltas (InstrumentId ''ADA'') L2_MBP]"
proof -
  let ?s = "init typed_env cfg1 []"
  have plan: "instrument_ids ?s = [InstrumentId ''ADA'']"
    "bar_types ?s = [BarType ''ADA-1-MINUTE'']" "book_type ?s = L2_MBP"
    by (simp_all add: init_eq typed_env_def sim_env_def cfg1_def parsed_def)
  have started: "actor_calls (trace (snd (on_start typed_env ?s))) =
       [subscribe_instrument (InstrumentId ''ADA''), subscribe_quote_ticks (InstrumentId ''ADA''),
        subscribe_trade_ticks (InstrumentId ''ADA''),
        subscribe_order_book_deltas (InstrumentId ''ADA'') L2_MBP 0,
        subscribe_bars (BarType ''ADA-1-MINUTE'')]"
    by (simp add: on_start_issue plan subscriptions_def actor_calls_init)
       (simp add: typed_env_def sim_env_def)
  show ?thesis
    by (simp add: on_stop_issue on_start_fields plan started unsubscriptions_def)
       (simp add: typed_env_def sim_env_def)
qed

text \<open>
  Claim C9, as the code has it. The status report returns without raising and changes
  nothing of the streamer but the trace, to which it adds log lines and the inventory
  query (no write, no subscription call). Its first line carries the clock reading of the
  call; the lines after it are a function of the quote counter, the trade counter, the
  bar counters and the answer of the catalog's inventory query alone. So a second report
  with no event in between has the same lines as the first after the header, and the
  same header when the clock reads the same.
\<close>

theorem status_report_repeats:
  "fst (log_status env now s) = Inr ()
   \<and> (snd (log_status env now s))\<lparr>trace := trace s\<rparr> = s
   \<and> writes (trace (snd (log_status env now s))) = writes (trace s)
   \<and> actor_calls (trace (snd (log_status env now s))) = actor_calls (trace s)
   \<and> report env now s =
       (INFO, YELLOW, StatusReport now)
       # status_body (quote_count s) (trade_count s) (bar_counts s)
           (list_data_types env (world s))
   \<and> report env now' (snd (log_status env now s)) =
       (INFO, YELLOW, StatusReport now')
       # status_body (quote_count s) (trade_count s) (bar_counts s)
           (list_data_types env (world s))
   \<and> tl (report env now' (snd (log_status env now s))) = tl (report env now s)
   \<and> report env now (snd (log_status env now s)) = report env now s"
proof -
  have "report env t (snd (log_status env now s)) =
       (INFO, YELLOW, StatusReport t)
       # status_body (quote_count s) (trade_count s) (bar_counts s)
           (list_data_types env (world s))" for t
    by (simp add: report_eq) (simp add: log_status_eq)
  then show ?thesis
    by (simp add: report_eq log_status_frame log_status_quiet) (simp add: log_status_eq)
qed

theorem status_report_repeats_witness:
  "report sim_env ''2025-01-01 00:00:00'' (deliver sim_env [quote0 ada] (init sim_env cfg1 [])) =
     [(INFO, YELLOW, StatusReport ''2025-01-01 00:00:00''), (INFO, YELLOW, QuoteTotal 1),
      (INFO, YELLOW, TradeTotal 0), (INFO, YELLOW, BarTotal ''ADA-1-MINUTE'' 0),
      (INFO, MAGENTA, CatalogDataTypes [Named ''QuoteTick'']),
      (INFO, MAGENTA, DataTypeWritten ''QuoteTick'')]
   \<and> report sim_env ''2025-01-01 00:00:00''
       (snd (log_status sim_env ''2025-01-01 00:00:00''
          (deliver sim_env [quote0 ada] (init sim_env cfg1 [])))) =
     [(INFO, YELLOW, StatusReport ''2025-01-01 00:00:00''), (INFO, YELLOW, QuoteTotal 1),
      (INFO, YELLOW, TradeTotal 0), (INFO, YELLOW, BarTotal ''ADA-1-MINUTE'' 0),
      (INFO, MAGENTA, CatalogDataTypes [Named ''QuoteTick'']),
      (INFO, MAGENTA, DataTypeWritten ''QuoteTick'')]"
  using status_report_repeats [of sim_env "''2025-01-01 00:00:00''"
          "deliver sim_env [quote0 ada] (init sim_env cfg1 [])" "''2025-01-01 00:00:00''"]
  by (simp add: status_body_def on_quote_tick_eq init_eq quote0_def sim_env_def cfg1_def
        dict_set_def)

text \<open>Claim C9 as stated fails: with no event in between, a report made one second after
  another differs from it in the header line, so the report is not a function of the
  counters and the inventory alone.\<close>

theorem status_report_counterexample:
  "report sim_env ''2025-01-01 00:00:01''
     (snd (log_status sim_env ''2025-01-01 00:00:00'' (init sim_env cfg1 [])))
   \<noteq> report sim_env ''2025-01-01 00:00:00'' (init sim_env cfg1 [])"
  by (simp add: report_eq)

text \<open>
  Claim C3 at a failing input. After one order book deltas object the deltas counter is 1
  and the catalog holds the object, but the report has a line for the quote counter, one
  for the trade counter and one for each bar counter, and none for the deltas counter.
\<close>

theorem status_report_omits_deltas_count:
  "deltas_count (deliver sim_env [DOrderBookDeltas (OrderBookDeltas (InstrumentId ''ADA''))]
      (init sim_env cfg1 [])) = 1
   \<and> report sim_env ''2025-01-01 00:00:00''
       (deliver sim_env [DOrderBookDeltas (OrderBookDeltas (InstrumentId ''ADA''))]
          (init sim_env cfg1 [])) =
     [(INFO, YELLOW, StatusReport ''2025-01-01 00:00:00''), (INFO, YELLOW, QuoteTotal 0),
      (INFO, YELLOW, TradeTotal 0), (INFO, YELLOW, BarTotal ''ADA-1-MINUTE'' 0),
      (INFO, MAGENTA, CatalogDataTypes [Named ''OrderBookDeltas'']),
      (INFO, MAGENTA, DataTypeWritten ''OrderBookDeltas'')]"
  by (simp add: report_eq status_body_def on_order_book_deltas_eq init_eq sim_env_def cfg1_def
        dict_set_def)

end
